theory Spec2Isabelle
  imports Complex_Main "HOL-Library.Sublist"
begin

section \<open>Text primitives of the host language\<close>

text \<open>
  A text is a list of code points below 256 (\<^typ>\<open>string\<close>). The functions below are
  the string methods the executor module calls: \<^verbatim>\<open>str.lower\<close>, \<^verbatim>\<open>str.strip\<close>,
  \<^verbatim>\<open>str.split\<close>, \<^verbatim>\<open>str.join\<close>, \<^verbatim>\<open>str.startswith\<close> and the substring test \<^verbatim>\<open>in\<close>.
  Text with code points from 256 on, where \<^verbatim>\<open>str.lower\<close> is no longer a map on single
  characters, is treated in the section on the pattern test on arbitrary text.
\<close>

definition char_lower :: "char \<Rightarrow> char" where
  "char_lower c =
     (let n = (of_char c :: nat)
      in if (65 \<le> n \<and> n \<le> 90) \<or> (192 \<le> n \<and> n \<le> 222 \<and> n \<noteq> 215)
         then char_of (n + 32) else c)"

definition lower :: "string \<Rightarrow> string" where
  "lower s = map char_lower s"

definition isspace :: "char \<Rightarrow> bool" where
  "isspace c =
     (let n = (of_char c :: nat)
      in (9 \<le> n \<and> n \<le> 13) \<or> (28 \<le> n \<and> n \<le> 32) \<or> n = 133 \<or> n = 160)"

definition strip :: "string \<Rightarrow> string" where
  "strip s = rev (dropWhile isspace (rev (dropWhile isspace s)))"

fun startswith :: "string \<Rightarrow> string \<Rightarrow> bool" where
  "startswith s [] = True"
| "startswith [] (p # ps) = False"
| "startswith (c # s) (p # ps) = (c = p \<and> startswith s ps)"

text \<open>\<open>contains sub s\<close> is Python's \<^verbatim>\<open>sub in s\<close>.\<close>

fun contains :: "string \<Rightarrow> string \<Rightarrow> bool" where
  "contains sub [] = (sub = [])"
| "contains sub (c # s) = (startswith (c # s) sub \<or> contains sub s)"

text \<open>\<open>str_split sep s\<close> is \<^verbatim>\<open>s.split(sep)\<close> for a one-character separator.\<close>

fun str_split :: "char \<Rightarrow> string \<Rightarrow> string list" where
  "str_split sep [] = [[]]"
| "str_split sep (c # cs) =
     (if c = sep then [] # str_split sep cs
      else (case str_split sep cs of
              [] \<Rightarrow> [[c]]
            | l # ls \<Rightarrow> (c # l) # ls))"

fun str_join :: "string \<Rightarrow> string list \<Rightarrow> string" where
  "str_join sep [] = []"
| "str_join sep [l] = l"
| "str_join sep (l # l' # ls) = l @ sep @ str_join sep (l' # ls)"

text \<open>Decimal rendering of an integer, as \<^verbatim>\<open>str(n)\<close> and \<^verbatim>\<open>f"{n}"\<close> give it.\<close>

definition digit_char :: "nat \<Rightarrow> char" where
  "digit_char d = char_of (48 + d)"

fun str_nat :: "nat \<Rightarrow> string" where
  "str_nat n = (if n < 10 then [digit_char n] else str_nat (n div 10) @ [digit_char (n mod 10)])"

declare str_nat.simps [simp del]

definition str_int :: "int \<Rightarrow> string" where
  "str_int i = (if i < 0 then CHR ''-'' # str_nat (nat (- i)) else str_nat (nat i))"


section \<open>Import normalisation and validation (executor.py)\<close>

definition BLOCKED_PATTERNS :: "string list" where
  "BLOCKED_PATTERNS =
     [''__import__'', ''exec('', ''eval('', ''open('', ''os.'', ''sys.'', ''subprocess'',
      ''file('', ''input('', ''__builtins__'', ''__class__'', ''__bases__'',
      ''__subclasses__'', ''getattr'', ''setattr'', ''delattr'', ''globals'', ''locals'',
      ''compile'']"

definition SAFE_IMPORTS :: "string list" where
  "SAFE_IMPORTS = [''datetime'', ''timedelta'', ''pd'', ''np'', ''pandas'', ''numpy'']"

text \<open>\<^verbatim>\<open>any(safe in stripped for safe in SAFE_IMPORTS)\<close>\<close>

definition is_safe :: "string \<Rightarrow> bool" where
  "is_safe stripped = list_ex (\<lambda>safe. contains safe stripped) SAFE_IMPORTS"

text \<open>The condition under which the loop of \<^verbatim>\<open>strip_imports\<close> skips a line.\<close>

definition skipped :: "string \<Rightarrow> bool" where
  "skipped line =
     (let stripped = strip line
      in (startswith stripped ''import '' \<or> startswith stripped ''from '') \<and> is_safe stripped)"

text \<open>The loop over the lines: a skipped line is not appended to \<^verbatim>\<open>filtered_lines\<close>.\<close>

fun filter_lines :: "string list \<Rightarrow> string list" where
  "filter_lines [] = []"
| "filter_lines (line # lines) =
     (if skipped line then filter_lines lines else line # filter_lines lines)"

definition newline :: char where
  "newline = CHR 0x0A"

definition strip_imports :: "string \<Rightarrow> string" where
  "strip_imports code = str_join [newline] (filter_lines (str_split newline code))"

text \<open>
  The pattern loop of \<^verbatim>\<open>validate_code\<close>: the first pattern, in list order, whose lower-cased
  form occurs in the lower-cased code.
\<close>

fun first_blocked :: "string list \<Rightarrow> string \<Rightarrow> string option" where
  "first_blocked [] code_lower = None"
| "first_blocked (pattern # ps) code_lower =
     (if contains (lower pattern) code_lower then Some pattern
      else first_blocked ps code_lower)"

text \<open>
  \<^verbatim>\<open>ast.parse\<close> belongs to the host language and is a parameter: it gives the message of
  the \<^verbatim>\<open>SyntaxError\<close> (\<open>Inl\<close>) or the syntax tree (\<open>Inr\<close>).
\<close>

definition validate_code :: "(string \<Rightarrow> string + 'ast) \<Rightarrow> string \<Rightarrow> bool \<times> string option" where
  "validate_code parse code =
     (let code_lower = lower code
      in case first_blocked BLOCKED_PATTERNS code_lower of
           Some pattern \<Rightarrow> (False, Some (''Unsafe pattern detected: '' @ pattern))
         | None \<Rightarrow>
             (case parse code of
                Inl msg \<Rightarrow> (False, Some (''Syntax error: '' @ msg))
              | Inr tree \<Rightarrow> (True, None)))"


section \<open>The pattern test on arbitrary text\<close>

text \<open>
  A text of the host language is a sequence of Unicode code points, and \<^verbatim>\<open>str.lower\<close> is
  not a map on single characters: a code point can lower to several, and the capital
  sigma (931) lowers to the final sigma (962) or the small sigma (963) according to the
  characters around it. The sections above work on texts of code points below 256,
  where none of this occurs. This section models \<^verbatim>\<open>str.lower\<close> and the pattern test of
  \<^verbatim>\<open>validate_code\<close> on arbitrary text. The lower-case mappings of the code points from 256
  on and the condition for a final sigma come from the Unicode character database and
  are parameters.
\<close>

type_synonym utext = "nat list"

definition of_string :: "string \<Rightarrow> utext" where
  "of_string s = map of_char s"

record ucd =
  lower_full :: "nat \<Rightarrow> utext"
  final_sigma :: "utext \<Rightarrow> utext \<Rightarrow> bool"

definition latin1_lower :: "nat \<Rightarrow> nat" where
  "latin1_lower c =
     (if (65 \<le> c \<and> c \<le> 90) \<or> (192 \<le> c \<and> c \<le> 222 \<and> c \<noteq> 215) then c + 32 else c)"

text \<open>The lower case of the code point \<open>c\<close> that stands between \<open>before\<close> and \<open>after\<close>.\<close>

definition lower_cp :: "ucd \<Rightarrow> utext \<Rightarrow> nat \<Rightarrow> utext \<Rightarrow> utext" where
  "lower_cp U before c after =
     (if c = 931 then (if final_sigma U before after then [962] else [963])
      else if c < 256 then [latin1_lower c]
      else lower_full U c)"

fun ulower_from :: "ucd \<Rightarrow> utext \<Rightarrow> utext \<Rightarrow> utext" where
  "ulower_from U before [] = []"
| "ulower_from U before (c # after) =
     lower_cp U before c after @ ulower_from U (before @ [c]) after"

definition ulower :: "ucd \<Rightarrow> utext \<Rightarrow> utext" where
  "ulower U s = ulower_from U [] s"

text \<open>
  The pattern loop and \<^verbatim>\<open>validate_code\<close> as above, on arbitrary text; \<open>sublist sub s\<close> is
  \<^verbatim>\<open>sub in s\<close>.
\<close>

fun first_blocked_u :: "ucd \<Rightarrow> string list \<Rightarrow> utext \<Rightarrow> string option" where
  "first_blocked_u U [] code_lower = None"
| "first_blocked_u U (pattern # ps) code_lower =
     (if sublist (ulower U (of_string pattern)) code_lower then Some pattern
      else first_blocked_u U ps code_lower)"

definition validate_code_u ::
  "ucd \<Rightarrow> (utext \<Rightarrow> string + 'ast) \<Rightarrow> utext \<Rightarrow> bool \<times> string option" where
  "validate_code_u U parse code =
     (let code_lower = ulower U code
      in case first_blocked_u U BLOCKED_PATTERNS code_lower of
           Some pattern \<Rightarrow> (False, Some (''Unsafe pattern detected: '' @ pattern))
         | None \<Rightarrow>
             (case parse code of
                Inl msg \<Rightarrow> (False, Some (''Syntax error: '' @ msg))
              | Inr tree \<Rightarrow> (True, None)))"


section \<open>Values, exceptions and scopes of the host language\<close>

text \<open>
  A floating-point number is a finite value, a not-a-number or an infinity. Every finite
  double is a rational, so finite values are modelled by \<^typ>\<open>rat\<close>.
\<close>

datatype pyfloat = Finite rat | NaN | PosInf | NegInf

datatype cell = CNull | CBool bool | CInt int | CFloat pyfloat | CStr string

record dataframe =
  columns :: "string list"
  rows :: "cell list list"

text \<open>A labeled sequence: the pairs of index label and value, in order.\<close>

type_synonym series = "(cell \<times> cell) list"

text \<open>
  \<open>PObject\<close> stands for a host object the executor only passes around (a module, a
  builtin function), named by its text.
\<close>

datatype pyval =
    PNone
  | PBool bool
  | PInt int
  | PFloat pyfloat
  | PStr string
  | PList "pyval list"
  | PTuple "pyval list"
  | PDict "(string \<times> pyval) list"
  | PDataFrame dataframe
  | PSeries series
  | PObject string

text \<open>An exception: \<^verbatim>\<open>type(e).__name__\<close> and \<^verbatim>\<open>str(e)\<close>.\<close>

datatype exn = Exn (etype: string) (emsg: string)

type_synonym scope = "string \<rightharpoonup> pyval"

text \<open>The dictionary of named tables, as its items in order; the names are distinct.\<close>

type_synonym tables = "(string \<times> dataframe) list"

text \<open>\<^verbatim>\<open>d.get(k)\<close>: the value, or \<^verbatim>\<open>None\<close> for a missing key.\<close>

definition dict_get :: "scope \<Rightarrow> string \<Rightarrow> pyval" where
  "dict_get d k = (case d k of None \<Rightarrow> PNone | Some v \<Rightarrow> v)"

text \<open>
  The truth value of an object, as \<^verbatim>\<open>bool(v)\<close> computes it. A table and a labeled
  sequence refuse the conversion.
\<close>

fun truth :: "pyval \<Rightarrow> exn + bool" where
  "truth PNone = Inr False"
| "truth (PBool b) = Inr b"
| "truth (PInt i) = Inr (i \<noteq> 0)"
| "truth (PFloat (Finite q)) = Inr (q \<noteq> 0)"
| "truth (PFloat f) = Inr True"
| "truth (PStr s) = Inr (s \<noteq> [])"
| "truth (PList vs) = Inr (vs \<noteq> [])"
| "truth (PTuple vs) = Inr (vs \<noteq> [])"
| "truth (PDict kvs) = Inr (kvs \<noteq> [])"
| "truth (PDataFrame df) =
     Inl (Exn ''ValueError''
       ''The truth value of a DataFrame is ambiguous. Use a.empty, a.bool(), a.item(), a.any() or a.all().'')"
| "truth (PSeries s) =
     Inl (Exn ''ValueError''
       ''The truth value of a Series is ambiguous. Use a.empty, a.bool(), a.item(), a.any() or a.all().'')"
| "truth (PObject n) = Inr True"

text \<open>\<^verbatim>\<open>a or b\<close> for operands that are already evaluated.\<close>

definition py_or :: "pyval \<Rightarrow> pyval \<Rightarrow> exn + pyval" where
  "py_or a b = (case truth a of Inl e \<Rightarrow> Inl e | Inr t \<Rightarrow> Inr (if t then a else b))"

text \<open>The slice \<^verbatim>\<open>xs[:n]\<close>; \<^verbatim>\<open>head(n)\<close> of a table or labeled sequence is \<^verbatim>\<open>iloc[:n]\<close>.\<close>

definition slice_to :: "int \<Rightarrow> 'a list \<Rightarrow> 'a list" where
  "slice_to n xs = take (nat (if 0 \<le> n then n else int (length xs) + n)) xs"

definition head :: "int \<Rightarrow> dataframe \<Rightarrow> dataframe" where
  "head n df = df\<lparr>rows := slice_to n (rows df)\<rparr>"

definition series_head :: "int \<Rightarrow> series \<Rightarrow> series" where
  "series_head n s = slice_to n s"

text \<open>\<^verbatim>\<open>int(x)\<close> for a floating-point \<open>x\<close>: truncation towards zero.\<close>

fun int_of_float :: "pyfloat \<Rightarrow> exn + int" where
  "int_of_float (Finite q) = Inr (if 0 \<le> q then \<lfloor>q\<rfloor> else \<lceil>q\<rceil>)"
| "int_of_float NaN = Inl (Exn ''ValueError'' ''cannot convert float NaN to integer'')"
| "int_of_float f = Inl (Exn ''OverflowError'' ''cannot convert float infinity to integer'')"

text \<open>\<^verbatim>\<open>x == n\<close> for a floating-point \<open>x\<close> and an integer \<open>n\<close>.\<close>

fun float_eq_int :: "pyfloat \<Rightarrow> int \<Rightarrow> bool" where
  "float_eq_int (Finite q) n = (q = of_int n)"
| "float_eq_int f n = False"

definition round_half_even :: "rat \<Rightarrow> int" where
  "round_half_even q =
     (let f = \<lfloor>q\<rfloor>; d = q - of_int f
      in if d < 1 / 2 then f else if 1 / 2 < d then f + 1 else if even f then f else f + 1)"

text \<open>\<^verbatim>\<open>f"{x:.2f}"\<close>: the value rounded to two decimals, ties to even.\<close>

fun format_2f :: "pyfloat \<Rightarrow> string" where
  "format_2f (Finite q) =
     (let m = nat (round_half_even (\<bar>q\<bar> * 100))
      in (if q < 0 then ''-'' else []) @ str_nat (m div 100) @ ''.''
         @ [digit_char (m mod 100 div 10), digit_char (m mod 10)])"
| "format_2f NaN = ''nan''"
| "format_2f PosInf = ''inf''"
| "format_2f NegInf = ''-inf''"


section \<open>The interpreter the executor runs on\<close>

text \<open>
  \<^verbatim>\<open>ast.parse\<close>, \<^verbatim>\<open>ast.unparse\<close>, \<^verbatim>\<open>isinstance\<close> on syntax nodes, \<^verbatim>\<open>exec\<close> and \<^verbatim>\<open>eval\<close>
  are facilities of the host language. They are parameters of the model, collected in a
  record; \<open>'s\<close> is the type of statement nodes. \<open>exec\<close> returns the two dictionaries as it
  leaves them, or the exception it raised. Mutation of objects shared with the caller and
  code that does not return are outside the model.
\<close>

datatype target_class = Name string | OtherTarget

datatype stmt_class = Assign "target_class list" | Expr | OtherStmt

record 's host =
  ast_parse :: "string \<Rightarrow> string + 's list"
  ast_unparse :: "'s list \<Rightarrow> string"
  node_class :: "'s \<Rightarrow> stmt_class"
  exec :: "string \<Rightarrow> scope \<Rightarrow> scope \<Rightarrow> exn + (scope \<times> scope)"
  eval :: "string \<Rightarrow> scope \<Rightarrow> scope \<Rightarrow> exn + pyval"


section \<open>Restricted execution (executor.py)\<close>

definition SAFE_BUILTINS :: "(string \<times> pyval) list" where
  "SAFE_BUILTINS =
     [(''len'', PObject ''len''), (''sum'', PObject ''sum''), (''min'', PObject ''min''),
      (''max'', PObject ''max''), (''abs'', PObject ''abs''), (''round'', PObject ''round''),
      (''sorted'', PObject ''sorted''), (''list'', PObject ''list''), (''dict'', PObject ''dict''),
      (''str'', PObject ''str''), (''int'', PObject ''int''), (''float'', PObject ''float''),
      (''bool'', PObject ''bool''), (''tuple'', PObject ''tuple''), (''set'', PObject ''set''),
      (''range'', PObject ''range''), (''enumerate'', PObject ''enumerate''),
      (''zip'', PObject ''zip''), (''True'', PBool True), (''False'', PBool False),
      (''None'', PNone)]"

text \<open>\<^verbatim>\<open>exec_globals\<close> after \<^verbatim>\<open>exec_globals.update(dataframes)\<close>.\<close>

definition initial_globals :: "tables \<Rightarrow> scope" where
  "initial_globals dataframes =
     map_of [(''__builtins__'', PDict SAFE_BUILTINS), (''pd'', PObject ''pd''),
             (''np'', PObject ''np''), (''datetime'', PObject ''datetime''),
             (''timedelta'', PObject ''timedelta'')]
     ++ map_of (map (\<lambda>(name, df). (name, PDataFrame df)) dataframes)"

text \<open>The handler \<^verbatim>\<open>except Exception as e\<close> of \<^verbatim>\<open>execute_code\<close>.\<close>

definition caught :: "exn \<Rightarrow> pyval \<times> string option" where
  "caught e = (PNone, Some (etype e @ '': '' @ emsg e))"

text \<open>
  A run of \<^verbatim>\<open>execute_code\<close>: the returned pair, and the calls of \<^verbatim>\<open>exec\<close> and \<^verbatim>\<open>eval\<close> it
  made, in order, each with the text it was given.
\<close>

datatype call = ExecCall string | EvalCall string

record run =
  outcome :: "pyval \<times> string option"
  calls :: "call list"

definition execute_code_run :: "'s host \<Rightarrow> string \<Rightarrow> tables \<Rightarrow> run" where
  "execute_code_run H code0 dataframes =
     (let code = strip_imports code0;
          (is_valid, error) = validate_code (ast_parse H) code
      in if \<not> is_valid then \<lparr>outcome = (PNone, error), calls = []\<rparr>
         else
           (let exec_globals = initial_globals dataframes;
                exec_locals = Map.empty
            in (case ast_parse H code of
                  Inl msg \<Rightarrow> \<lparr>outcome = caught (Exn ''SyntaxError'' msg), calls = []\<rparr>
                | Inr body \<Rightarrow>
                    (if body = [] then \<lparr>outcome = (PNone, Some ''Empty code''), calls = []\<rparr>
                     else
                       (let last_stmt = last body
                        in (case node_class H last_stmt of
                              Assign tgts \<Rightarrow>
                                (case exec H code exec_globals exec_locals of
                                   Inl e \<Rightarrow> \<lparr>outcome = caught e, calls = [ExecCall code]\<rparr>
                                 | Inr (g, l) \<Rightarrow>
                                     (let g' = g ++ l
                                      in (case tgts of
                                            Name var_name # rest \<Rightarrow>
                                              (case py_or (dict_get l var_name) (dict_get g' var_name) of
                                                 Inl e \<Rightarrow>
                                                   \<lparr>outcome = caught e, calls = [ExecCall code]\<rparr>
                                               | Inr result \<Rightarrow>
                                                   \<lparr>outcome = (result, None), calls = [ExecCall code]\<rparr>)
                                          | _ \<Rightarrow>
                                              \<lparr>outcome = (PNone, None), calls = [ExecCall code]\<rparr>)))
                            | Expr \<Rightarrow>
                                (let last_expr = ast_unparse H [last_stmt]
                                 in (if 1 < length body then
                                       (let setup_code = ast_unparse H (butlast body)
                                        in (case exec H setup_code exec_globals exec_locals of
                                              Inl e \<Rightarrow>
                                                \<lparr>outcome = caught e, calls = [ExecCall setup_code]\<rparr>
                                            | Inr (g, l) \<Rightarrow>
                                                (case eval H last_expr (g ++ l) l of
                                                   Inl e \<Rightarrow>
                                                     \<lparr>outcome = caught e,
                                                      calls = [ExecCall setup_code, EvalCall last_expr]\<rparr>
                                                 | Inr result \<Rightarrow>
                                                     \<lparr>outcome = (result, None),
                                                      calls = [ExecCall setup_code, EvalCall last_expr]\<rparr>)))
                                     else
                                       (case eval H last_expr exec_globals exec_locals of
                                          Inl e \<Rightarrow> \<lparr>outcome = caught e, calls = [EvalCall last_expr]\<rparr>
                                        | Inr result \<Rightarrow>
                                            \<lparr>outcome = (result, None), calls = [EvalCall last_expr]\<rparr>)))
                            | OtherStmt \<Rightarrow>
                                (case exec H code exec_globals exec_locals of
                                   Inl e \<Rightarrow> \<lparr>outcome = caught e, calls = [ExecCall code]\<rparr>
                                 | Inr (g, l) \<Rightarrow>
                                     \<lparr>outcome = (PNone, None), calls = [ExecCall code]\<rparr>)))))))"

definition execute_code :: "'s host \<Rightarrow> string \<Rightarrow> tables \<Rightarrow> pyval \<times> string option" where
  "execute_code H code dataframes = outcome (execute_code_run H code dataframes)"


section \<open>Result formatting (executor.py)\<close>

text \<open>
  \<^verbatim>\<open>str(result)\<close> and the \<^verbatim>\<open>to_string\<close> methods of a table (called with
  \<^verbatim>\<open>index=False\<close>) and of a labeled sequence belong to the host and its libraries; they
  are parameters.
\<close>

record renderers =
  py_str :: "pyval \<Rightarrow> string"
  df_to_string :: "dataframe \<Rightarrow> string"
  series_to_string :: "series \<Rightarrow> string"

text \<open>The results of a generator, consumed in order: the first exception ends it.\<close>

fun collect :: "(exn + 'a) list \<Rightarrow> exn + 'a list" where
  "collect [] = Inr []"
| "collect (Inl e # rs) = Inl e"
| "collect (Inr x # rs) = (case collect rs of Inl e \<Rightarrow> Inl e | Inr xs \<Rightarrow> Inr (x # xs))"

text \<open>\<^verbatim>\<open>isinstance(v, (pd.DataFrame, pd.Series))\<close>\<close>

fun is_frame_or_series :: "pyval \<Rightarrow> bool" where
  "is_frame_or_series (PDataFrame df) = True"
| "is_frame_or_series (PSeries s) = True"
| "is_frame_or_series v = False"

fun format_result :: "renderers \<Rightarrow> pyval \<Rightarrow> int \<Rightarrow> exn + string" where
  "format_result R PNone max_rows = Inr ''No result''"
| "format_result R (PDataFrame df) max_rows =
     (if max_rows < int (length (rows df)) then
        (let summary = ''DataFrame with '' @ str_int (int (length (rows df)))
                       @ '' rows (showing first '' @ str_int max_rows @ ''):'' @ [newline]
         in Inr (summary @ df_to_string R (head max_rows df)))
      else Inr (''DataFrame with '' @ str_int (int (length (rows df))) @ '' rows:'' @ [newline]
                @ df_to_string R df))"
| "format_result R (PSeries s) max_rows =
     (if max_rows < int (length s) then
        (let summary = ''Series with '' @ str_int (int (length s))
                       @ '' items (showing first '' @ str_int max_rows @ ''):'' @ [newline]
         in Inr (summary @ series_to_string R (series_head max_rows s)))
      else Inr (''Series with '' @ str_int (int (length s)) @ '' items:'' @ [newline]
                @ series_to_string R s))"
| "format_result R (PList []) max_rows = Inr (py_str R (PList []))"
| "format_result R (PList (r # rs)) max_rows =
     (if is_frame_or_series r then
        (case collect (map (\<lambda>x. format_result R x max_rows) (r # rs)) of
           Inl e \<Rightarrow> Inl e
         | Inr parts \<Rightarrow> Inr (str_join [newline, newline] parts))
      else Inr (py_str R (PList (r # rs))))"
| "format_result R (PTuple []) max_rows = Inr (py_str R (PTuple []))"
| "format_result R (PTuple (r # rs)) max_rows =
     (if is_frame_or_series r then
        (case collect (map (\<lambda>x. format_result R x max_rows) (r # rs)) of
           Inl e \<Rightarrow> Inl e
         | Inr parts \<Rightarrow> Inr (str_join [newline, newline] parts))
      else Inr (py_str R (PTuple (r # rs))))"
| "format_result R (PFloat x) max_rows =
     (case int_of_float x of
        Inl e \<Rightarrow> Inl e
      | Inr n \<Rightarrow> if float_eq_int x n then Inr (str_int n) else Inr (format_2f x))"
| "format_result R v max_rows = Inr (py_str R v)"


section \<open>The pipeline (pipeline.py, answer_generator.py)\<close>

record PipelineResult =
  question :: string
  answer :: string
  generated_code :: "string option"
  raw_result :: pyval
  formatted_result :: "string option"
  success :: bool
  error :: "string option"
  stage1_prompt :: "string option"
  stage2_prompt :: "string option"

text \<open>
  The collaborators of the pipeline that reach outside the process: file loading, the
  client of the model API, prompt construction from the schema of the tables, and the
  three model calls. Each is a parameter; a call that can raise returns a sum. The model
  call that regenerates code is made once per retry and takes the number of the attempt,
  so that two calls with the same arguments may answer differently.
\<close>

record services =
  load_data :: "string \<Rightarrow> exn + tables"
  get_client :: "exn + unit"
  build_code_generation_prompt :: "string \<Rightarrow> tables \<Rightarrow> string"
  generate_pandas_code :: "string \<Rightarrow> tables \<Rightarrow> exn + string"
  generate_code_with_error_feedback ::
    "int \<Rightarrow> string \<Rightarrow> tables \<Rightarrow> string \<Rightarrow> string \<Rightarrow> exn + string"
  generate_error_response :: "string \<Rightarrow> string \<Rightarrow> exn + string"
  generate_answer :: "string \<Rightarrow> string \<Rightarrow> string \<Rightarrow> exn + string"

record RAGPipeline =
  data_dir :: string
  max_retries :: int
  verbose :: bool
  dataframes :: tables

text \<open>The constructor's defaults.\<close>

definition new_pipeline :: RAGPipeline where
  "new_pipeline = \<lparr>data_dir = ''data'', max_retries = 2, verbose = False, dataframes = []\<rparr>"

definition build_answer_prompt :: "string \<Rightarrow> string \<Rightarrow> string" where
  "build_answer_prompt q result_summary =
     str_join [newline]
       [''You are a professional data analyst assistant. Based on the data query result below, provide a clear and concise answer to the user's question.'',
        [],
        ''    ## User Question:'',
        ''    '' @ q,
        [],
        ''    ## Query Result:'',
        ''    '' @ result_summary,
        [],
        ''    ## Instructions:'',
        ''    1. Answer the question directly using the data provided'',
        ''    2. Include specific numbers/values from the result'',
        ''    3. Keep the answer concise but complete'',
        ''    4. introduce any additional table formatting if strictly necessary for the answer.'',
        ''    5. If the result is a table, summarize the key findings'',
        ''    6. Do NOT make up any numbers - only use what's in the result'',
        ''    7. Format currency values with appropriate symbols when relevant'',
        [],
        ''    Answer:'']"

text \<open>\<^verbatim>\<open>RAGPipeline.load\<close>: the tables are loaded, then the client is created.\<close>

definition load :: "services \<Rightarrow> RAGPipeline \<Rightarrow> exn + RAGPipeline" where
  "load S P =
     (case load_data S (data_dir P) of
        Inl e \<Rightarrow> Inl e
      | Inr dfs \<Rightarrow>
          (case get_client S of
             Inl e \<Rightarrow> Inl e
           | Inr c \<Rightarrow> Inr (P\<lparr>dataframes := dfs\<rparr>)))"

text \<open>
  The state of the retry loop of \<^verbatim>\<open>ask\<close>: the variables \<^verbatim>\<open>code\<close>, \<^verbatim>\<open>result\<close> and \<^verbatim>\<open>error\<close>,
  and the texts given to \<^verbatim>\<open>execute_code\<close> so far, in order.
\<close>

record loop_state =
  ls_code :: string
  ls_result :: pyval
  ls_error :: "string option"
  ls_executed :: "string list"

text \<open>
  The loop \<^verbatim>\<open>for attempt in range(self.max_retries + 1)\<close>, from the iteration \<open>attempt\<close> on.
\<close>

function retry_loop ::
  "'s host \<Rightarrow> services \<Rightarrow> int \<Rightarrow> string \<Rightarrow> tables \<Rightarrow> int \<Rightarrow> loop_state \<Rightarrow> loop_state" where
  "retry_loop H S retries q dfs attempt st =
     (if attempt < retries + 1 then
        (case execute_code H (ls_code st) dfs of
           (result, err) \<Rightarrow>
             (let st1 = st\<lparr>ls_result := result, ls_error := err,
                           ls_executed := ls_executed st @ [ls_code st]\<rparr>
              in case err of
                   None \<Rightarrow> st1
                 | Some msg \<Rightarrow>
                     if attempt < retries then
                       (case generate_code_with_error_feedback S attempt q dfs (ls_code st) msg of
                          Inl e \<Rightarrow> st1\<lparr>ls_error := Some (''Code fix failed: '' @ emsg e)\<rparr>
                        | Inr code' \<Rightarrow>
                            retry_loop H S retries q dfs (attempt + 1) (st1\<lparr>ls_code := code'\<rparr>))
                     else retry_loop H S retries q dfs (attempt + 1) st1))
      else st)"
  by pat_completeness auto
termination
  by (relation "measure (\<lambda>(H, S, retries, q, dfs, attempt, st). nat (retries + 1 - attempt))") auto

declare retry_loop.simps [simp del]

text \<open>
  \<^verbatim>\<open>RAGPipeline.ask\<close>, after the tables are loaded. \<open>Inl\<close> is an exception that leaves
  \<^verbatim>\<open>ask\<close>. Printing under \<^verbatim>\<open>verbose\<close> is left out.
\<close>

definition ask_loaded ::
  "'s host \<Rightarrow> renderers \<Rightarrow> services \<Rightarrow> RAGPipeline \<Rightarrow> string \<Rightarrow> exn + PipelineResult" where
  "ask_loaded H R S P q =
     (let prompt1 = build_code_generation_prompt S q (dataframes P)
      in case generate_pandas_code S q (dataframes P) of
           Inl e \<Rightarrow>
             Inr \<lparr>question = q,
                  answer = ''Sorry, I couldn't generate code. Error: '' @ emsg e,
                  generated_code = None, raw_result = PNone, formatted_result = None,
                  success = False,
                  error = Some (''Code generation failed: '' @ emsg e),
                  stage1_prompt = Some prompt1, stage2_prompt = None\<rparr>
         | Inr code \<Rightarrow>
             (let st = retry_loop H S (max_retries P) q (dataframes P) 0
                         \<lparr>ls_code = code, ls_result = PNone, ls_error = None, ls_executed = []\<rparr>
              in case ls_error st of
                   Some err \<Rightarrow>
                     (let ans = (case generate_error_response S q err of
                                   Inl e \<Rightarrow> ''Sorry, I couldn't answer your question: '' @ err
                                 | Inr a \<Rightarrow> a)
                      in Inr \<lparr>question = q, answer = ans,
                              generated_code = Some (ls_code st), raw_result = PNone,
                              formatted_result = None, success = False, error = Some err,
                              stage1_prompt = Some prompt1, stage2_prompt = None\<rparr>)
                 | None \<Rightarrow>
                     (case format_result R (ls_result st) 20 of
                        Inl e \<Rightarrow> Inl e
                      | Inr formatted \<Rightarrow>
                          (let prompt2 = build_answer_prompt q formatted;
                               ans = (case generate_answer S q formatted (ls_code st) of
                                        Inl e \<Rightarrow> ''Here are the results:'' @ [newline, newline] @ formatted
                                      | Inr a \<Rightarrow> a)
                           in Inr \<lparr>question = q, answer = ans,
                                   generated_code = Some (ls_code st),
                                   raw_result = ls_result st,
                                   formatted_result = Some formatted, success = True,
                                   error = None, stage1_prompt = Some prompt1,
                                   stage2_prompt = Some prompt2\<rparr>))))"

definition ask ::
  "'s host \<Rightarrow> renderers \<Rightarrow> services \<Rightarrow> RAGPipeline \<Rightarrow> string \<Rightarrow> exn + PipelineResult" where
  "ask H R S P q =
     (if dataframes P = [] then
        (case load S P of
           Inl e \<Rightarrow> Inl e
         | Inr P' \<Rightarrow> ask_loaded H R S P' q)
      else ask_loaded H R S P q)"


section \<open>A small interpreter and sample data\<close>

text \<open>
  The general results below hold for every host. The concrete ones are evaluated on a
  small interpreter for a fragment of the language: constants, names, tuple displays,
  assignment to names and to tuples of names, expression statements and \<^verbatim>\<open>pass\<close>. Names
  are looked up in the local dictionary, then the global one, then the builtins found
  under \<^verbatim>\<open>__builtins__\<close>. What lies outside the fragment is reported as \<open>Unsupported\<close>. Its
  parser knows the programs listed in \<open>mini_programs\<close>.
\<close>

datatype mexpr = Const pyval | Var string | Tup "mexpr list"

datatype mtarget = TName string | TTup "string list"

datatype mstmt = MAssign "mtarget list" mexpr | MExpr mexpr | MPass

definition quote :: char where
  "quote = CHR 0x27"

definition lookup_name :: "scope \<Rightarrow> scope \<Rightarrow> string \<Rightarrow> exn + pyval" where
  "lookup_name g l x =
     (case l x of
        Some v \<Rightarrow> Inr v
      | None \<Rightarrow>
          (case g x of
             Some v \<Rightarrow> Inr v
           | None \<Rightarrow>
               (case g ''__builtins__'' of
                  Some (PDict kvs) \<Rightarrow>
                    (case map_of kvs x of
                       Some v \<Rightarrow> Inr v
                     | None \<Rightarrow> Inl (Exn ''NameError'' (''name '' @ [quote] @ x @ [quote] @ '' is not defined'')))
                | _ \<Rightarrow> Inl (Exn ''NameError'' (''name '' @ [quote] @ x @ [quote] @ '' is not defined'')))))"

fun m_eval :: "mexpr \<Rightarrow> scope \<Rightarrow> scope \<Rightarrow> exn + pyval" where
  "m_eval (Const v) g l = Inr v"
| "m_eval (Var x) g l = lookup_name g l x"
| "m_eval (Tup es) g l =
     (case collect (map (\<lambda>e. m_eval e g l) es) of
        Inl e \<Rightarrow> Inl e
      | Inr vs \<Rightarrow> Inr (PTuple vs))"

definition bind_all :: "string list \<Rightarrow> pyval list \<Rightarrow> scope \<Rightarrow> scope" where
  "bind_all xs vs l = fold (\<lambda>(x, v) m. m(x \<mapsto> v)) (zip xs vs) l"

fun bind_target :: "mtarget \<Rightarrow> pyval \<Rightarrow> scope \<Rightarrow> exn + scope" where
  "bind_target (TName x) v l = Inr (l(x \<mapsto> v))"
| "bind_target (TTup xs) (PTuple vs) l =
     (if length vs = length xs then Inr (bind_all xs vs l)
      else Inl (Exn ''Unsupported'' ''unpacking''))"
| "bind_target (TTup xs) (PList vs) l =
     (if length vs = length xs then Inr (bind_all xs vs l)
      else Inl (Exn ''Unsupported'' ''unpacking''))"
| "bind_target (TTup xs) v l = Inl (Exn ''Unsupported'' ''unpacking'')"

fun bind_targets :: "mtarget list \<Rightarrow> pyval \<Rightarrow> scope \<Rightarrow> exn + scope" where
  "bind_targets [] v l = Inr l"
| "bind_targets (t # ts) v l =
     (case bind_target t v l of Inl e \<Rightarrow> Inl e | Inr l' \<Rightarrow> bind_targets ts v l')"

fun m_exec_stmt :: "mstmt \<Rightarrow> scope \<Rightarrow> scope \<Rightarrow> exn + scope" where
  "m_exec_stmt (MAssign ts e) g l =
     (case m_eval e g l of Inl x \<Rightarrow> Inl x | Inr v \<Rightarrow> bind_targets ts v l)"
| "m_exec_stmt (MExpr e) g l =
     (case m_eval e g l of Inl x \<Rightarrow> Inl x | Inr v \<Rightarrow> Inr l)"
| "m_exec_stmt MPass g l = Inr l"

fun m_exec :: "mstmt list \<Rightarrow> scope \<Rightarrow> scope \<Rightarrow> exn + scope" where
  "m_exec [] g l = Inr l"
| "m_exec (s # ss) g l =
     (case m_exec_stmt s g l of Inl x \<Rightarrow> Inl x | Inr l' \<Rightarrow> m_exec ss g l')"

definition mini_programs :: "(string \<times> mstmt list) list" where
  "mini_programs =
     [([], []),
      (''pass'', [MPass]),
      (''clients_df'', [MExpr (Var ''clients_df'')]),
      (''result = clients_df'', [MAssign [TName ''result''] (Var ''clients_df'')]),
      (''missing_df'', [MExpr (Var ''missing_df'')]),
      (''a, b = 1, 2'', [MAssign [TTup [''a'', ''b'']] (Tup [Const (PInt 1), Const (PInt 2)])]),
      (''a, b = missing_df'', [MAssign [TTup [''a'', ''b'']] (Var ''missing_df'')]),
      (''total = 41'', [MAssign [TName ''total''] (Const (PInt 41))]),
      (''total'', [MExpr (Var ''total'')]),
      (''total = 41'' @ [newline] @ ''total'',
         [MAssign [TName ''total''] (Const (PInt 41)), MExpr (Var ''total'')])]"

definition mini_parse :: "string \<Rightarrow> string + mstmt list" where
  "mini_parse text =
     (case map_of mini_programs text of
        Some body \<Rightarrow> Inr body
      | None \<Rightarrow> Inl ''invalid syntax (<unknown>, line 1)'')"

definition mini_unparse :: "mstmt list \<Rightarrow> string" where
  "mini_unparse body =
     (case find (\<lambda>(text, b). b = body) mini_programs of
        Some (text, b) \<Rightarrow> text
      | None \<Rightarrow> [])"

fun mini_target_class :: "mtarget \<Rightarrow> target_class" where
  "mini_target_class (TName x) = Name x"
| "mini_target_class (TTup xs) = OtherTarget"

fun mini_class :: "mstmt \<Rightarrow> stmt_class" where
  "mini_class (MAssign ts e) = Assign (map mini_target_class ts)"
| "mini_class (MExpr e) = Expr"
| "mini_class MPass = OtherStmt"

definition mini_exec :: "string \<Rightarrow> scope \<Rightarrow> scope \<Rightarrow> exn + (scope \<times> scope)" where
  "mini_exec text g l =
     (case mini_parse text of
        Inl msg \<Rightarrow> Inl (Exn ''SyntaxError'' msg)
      | Inr body \<Rightarrow> (case m_exec body g l of Inl e \<Rightarrow> Inl e | Inr l' \<Rightarrow> Inr (g, l')))"

definition mini_eval :: "string \<Rightarrow> scope \<Rightarrow> scope \<Rightarrow> exn + pyval" where
  "mini_eval text g l =
     (case mini_parse text of
        Inr [MExpr e] \<Rightarrow> m_eval e g l
      | _ \<Rightarrow> Inl (Exn ''SyntaxError'' ''invalid syntax (<string>, line 1)''))"

definition mini_host :: "mstmt host" where
  "mini_host = \<lparr>ast_parse = mini_parse, ast_unparse = mini_unparse, node_class = mini_class,
                 exec = mini_exec, eval = mini_eval\<rparr>"

definition clients_table :: dataframe where
  "clients_table =
     \<lparr>columns = [''client_name'', ''country''],
      rows = [[CStr ''Acme GmbH'', CStr ''Germany''],
              [CStr ''Bright Legal'', CStr ''UK''],
              [CStr ''Nordic Oil'', CStr ''Norway'']]\<rparr>"

definition sample_tables :: tables where
  "sample_tables = [(''clients_df'', clients_table)]"

text \<open>
  Plain renderers for the examples: one line per row, the cells separated by a blank.
  (The library's own renderer aligns the columns.)
\<close>

fun cell_text :: "cell \<Rightarrow> string" where
  "cell_text CNull = ''NaN''"
| "cell_text (CBool b) = (if b then ''True'' else ''False'')"
| "cell_text (CInt i) = str_int i"
| "cell_text (CFloat x) = format_2f x"
| "cell_text (CStr s) = s"

fun plain_str :: "pyval \<Rightarrow> string" where
  "plain_str PNone = ''None''"
| "plain_str (PBool b) = (if b then ''True'' else ''False'')"
| "plain_str (PInt i) = str_int i"
| "plain_str (PStr s) = s"
| "plain_str v = ''<object>''"

definition plain_df_to_string :: "dataframe \<Rightarrow> string" where
  "plain_df_to_string df =
     str_join [newline]
       (str_join '' '' (columns df) # map (\<lambda>r. str_join '' '' (map cell_text r)) (rows df))"

definition plain_series_to_string :: "series \<Rightarrow> string" where
  "plain_series_to_string s =
     str_join [newline] (map (\<lambda>(k, v). cell_text k @ '' '' @ cell_text v) s)"

definition plain :: renderers where
  "plain = \<lparr>py_str = plain_str, df_to_string = plain_df_to_string,
            series_to_string = plain_series_to_string\<rparr>"

text \<open>
  Scripted collaborators for the examples. The generator answers every request with the
  same code; the model calls that write an answer either succeed or are unreachable.
\<close>

definition scripted :: "string \<Rightarrow> bool \<Rightarrow> services" where
  "scripted code reachable =
     \<lparr>load_data = (\<lambda>dir. Inr sample_tables),
      get_client = Inr (),
      build_code_generation_prompt = (\<lambda>q dfs. ''Question: '' @ q),
      generate_pandas_code = (\<lambda>q dfs. Inr code),
      generate_code_with_error_feedback = (\<lambda>attempt q dfs previous_code msg. Inr code),
      generate_error_response =
        (\<lambda>q msg. if reachable then Inr ''The question could not be answered.''
                  else Inl (Exn ''APIConnectionError'' ''Connection error.'')),
      generate_answer =
        (\<lambda>q summary c. if reachable then Inr ''There are three clients.''
                        else Inl (Exn ''APIConnectionError'' ''Connection error.''))\<rparr>"

definition loaded_pipeline :: RAGPipeline where
  "loaded_pipeline = new_pipeline\<lparr>dataframes := sample_tables\<rparr>"

text \<open>
  The entries of the character database that the examples use: the capital I with dot
  above (304) lowers to \<open>i\<close> and a combining dot, the Kelvin sign (8490) to \<open>k\<close>, and the
  long s (383) is its own lower case, as is every code point that is not an upper-case
  letter. The upper-case letters from 256 on that this leaves out, and the capital sigma,
  do not occur in the examples.
\<close>

definition ucd_sample :: ucd where
  "ucd_sample =
     \<lparr>lower_full = (\<lambda>c. if c = 304 then [105, 775] else if c = 8490 then [107] else [c]),
      final_sigma = (\<lambda>before after. False)\<rparr>"

text \<open>
  The expression \<^verbatim>\<open>().__class__\<close> written with two long s. The parser accepts it and
  reads the attribute name in its normalised form, \<^verbatim>\<open>__class__\<close>; the tree is given here
  by the text that \<^verbatim>\<open>ast.unparse\<close> prints for it.
\<close>

definition long_s_code :: utext where
  "long_s_code = of_string ''().__cla'' @ [383, 383] @ of_string ''__''"

definition long_s_parse :: "utext \<Rightarrow> string + string" where
  "long_s_parse text =
     (if text = long_s_code then Inr ''().__class__''
      else Inl ''invalid syntax (<unknown>, line 1)'')"


section \<open>Properties of the text primitives\<close>

lemma startswith_iff: "startswith s p \<longleftrightarrow> (\<exists>r. s = p @ r)"
  by (induction s p rule: startswith.induct) auto

lemma contains_iff: "contains sub s \<longleftrightarrow> (\<exists>pre post. s = pre @ sub @ post)"
proof (induction s)
  case Nil
  then show ?case by auto
next
  case (Cons c s)
  show ?case
  proof
    assume "contains sub (c # s)"
    then consider "startswith (c # s) sub" | "contains sub s" by auto
    then show "\<exists>pre post. c # s = pre @ sub @ post"
    proof cases
      case 1
      then obtain r where "c # s = sub @ r" by (auto simp: startswith_iff)
      then have "c # s = [] @ sub @ r" by simp
      then show ?thesis by blast
    next
      case 2
      then obtain pre post where "s = pre @ sub @ post" using Cons.IH by blast
      then have "c # s = (c # pre) @ sub @ post" by simp
      then show ?thesis by blast
    qed
  next
    assume "\<exists>pre post. c # s = pre @ sub @ post"
    then obtain pre post where eq: "c # s = pre @ sub @ post" by blast
    show "contains sub (c # s)"
    proof (cases pre)
      case Nil
      with eq have "startswith (c # s) sub" by (auto simp: startswith_iff)
      then show ?thesis by simp
    next
      case (Cons a pre')
      with eq have "s = pre' @ sub @ post" by simp
      then have "contains sub s" using Cons.IH by blast
      then show ?thesis by simp
    qed
  qed
qed

lemma lower_append: "lower (a @ b) = lower a @ lower b"
  by (simp add: lower_def)

lemma first_blocked_hit:
  "p \<in> set ps \<Longrightarrow> contains (lower p) c \<Longrightarrow>
   \<exists>q. q \<in> set ps \<and> contains (lower q) c \<and> first_blocked ps c = Some q"
  by (induction ps) auto









section \<open>The validator\<close>

lemma validate_code_reason:
  "validate_code parse code = (False, r) \<Longrightarrow> \<exists>msg. r = Some msg \<and> msg \<noteq> []"
  by (auto simp: validate_code_def Let_def split: option.splits sum.splits)

lemma validate_code_accepts:
  "validate_code parse code = (True, r) \<Longrightarrow> r = None \<and> (\<exists>body. parse code = Inr body)"
  by (auto simp: validate_code_def Let_def split: option.splits sum.splits)

text \<open>
  On texts of code points below 256: whenever the code contains a token that equals a
  deny-listed pattern up to the casing of its characters, \<open>validate_code\<close> rejects it,
  whatever the parser says about the text; the reason names the first deny-listed
  pattern, in the order of the list, that occurs in the lower-cased code.
\<close>

lemma validate_code_rejects_latin1:
  assumes "p \<in> set BLOCKED_PATTERNS"
    and "lower tok = lower p"
    and "code = pre @ tok @ post"
  shows "\<exists>q. q \<in> set BLOCKED_PATTERNS \<and> contains (lower q) (lower code)
           \<and> first_blocked BLOCKED_PATTERNS (lower code) = Some q
           \<and> validate_code parse code = (False, Some (''Unsafe pattern detected: '' @ q))"
proof -
  have "lower code = lower pre @ lower p @ lower post"
    using assms(2,3) by (simp add: lower_append)
  then have "contains (lower p) (lower code)"
    unfolding contains_iff by blast
  with assms(1) obtain q where q: "q \<in> set BLOCKED_PATTERNS" "contains (lower q) (lower code)"
      "first_blocked BLOCKED_PATTERNS (lower code) = Some q"
    using first_blocked_hit by blast
  then have "validate_code parse code = (False, Some (''Unsafe pattern detected: '' @ q))"
    by (simp add: validate_code_def Let_def)
  with q show ?thesis by blast
qed

section \<open>The pattern test on arbitrary text: properties\<close>

lemma contains_sublist: "contains sub s \<longleftrightarrow> sublist sub s"
  by (simp add: contains_iff sublist_def)

lemma of_char_lower: "of_char (char_lower c) = latin1_lower (of_char c)"
proof -
  have "(of_char c :: nat) < 256" by simp
  then show ?thesis
    by (auto simp: char_lower_def latin1_lower_def Let_def)
qed

lemma ulower_from_latin1:
  "ulower_from U before (of_string s) = of_string (lower s)"
proof (induction s arbitrary: before)
  case Nil
  then show ?case by (simp add: of_string_def lower_def)
next
  case (Cons c s)
  have "(of_char c :: nat) < 256" by simp
  then have "lower_cp U before (of_char c) (of_string s) = [latin1_lower (of_char c)]"
    by (cases "of_char c = (931::nat)") (simp_all add: lower_cp_def)
  with Cons show ?case
    by (simp add: of_string_def lower_def of_char_lower)
qed

lemma ulower_latin1: "ulower U (of_string s) = of_string (lower s)"
  by (simp add: ulower_def ulower_from_latin1)

lemma inj_of_string: "inj of_string"
proof -
  have "inj (of_char :: char \<Rightarrow> nat)" by (rule inj_of_char)
  then show ?thesis
    unfolding of_string_def by (simp add: inj_on_def list.inj_map_strong)
qed

lemma sublist_of_string: "sublist (of_string a) (of_string b) \<longleftrightarrow> sublist a b"
proof
  assume "sublist (of_string a) (of_string b)"
  then obtain ps ss where eq: "of_string b = ps @ of_string a @ ss"
    by (auto simp: sublist_def)
  then obtain b1 b2 where b: "b = b1 @ b2" "map of_char b1 = ps" "map of_char b2 = of_string a @ ss"
    unfolding of_string_def by (metis map_eq_append_conv)
  then obtain b3 b4 where b': "b2 = b3 @ b4" "map of_char b3 = of_string a" "map of_char b4 = ss"
    by (metis map_eq_append_conv)
  then have "of_string b3 = of_string a" by (simp add: of_string_def)
  then have "b3 = a" using inj_of_string by (simp add: inj_eq)
  with b b' have "b = b1 @ a @ b4" by simp
  then show "sublist a b" unfolding sublist_def by blast
next
  assume "sublist a b"
  then obtain ps ss where "b = ps @ a @ ss" by (auto simp: sublist_def)
  then have "of_string b = of_string ps @ of_string a @ of_string ss"
    by (simp add: of_string_def)
  then show "sublist (of_string a) (of_string b)" unfolding sublist_def by blast
qed

text \<open>
  On a text of code points below 256 the two models of the validator agree, whatever
  the character database.
\<close>

lemma first_blocked_u_latin1:
  "first_blocked_u U ps (of_string s) = first_blocked ps s"
  by (induction ps) (simp_all add: ulower_latin1 sublist_of_string contains_sublist)

lemma validate_code_u_latin1:
  "validate_code_u U parse (of_string code) = validate_code (\<lambda>s. parse (of_string s)) code"
  by (simp add: validate_code_u_def validate_code_def Let_def ulower_latin1 first_blocked_u_latin1)

text \<open>
  A piece of text without a capital sigma lowers the same way wherever it stands, so
  its lower-cased form occurs in the lower-cased form of any text that contains it.
\<close>

lemma ulower_from_no_sigma:
  "931 \<notin> set tok \<Longrightarrow>
   ulower_from U b1 (tok @ post) = ulower_from U b2 tok @ ulower_from U (b1 @ tok) post"
proof (induction tok arbitrary: b1 b2)
  case Nil
  then show ?case by simp
next
  case (Cons c tok)
  then have "c \<noteq> 931" by auto
  then have "lower_cp U b1 c (tok @ post) = lower_cp U b2 c tok"
    by (simp add: lower_cp_def)
  moreover have "ulower_from U (b1 @ [c]) (tok @ post)
                   = ulower_from U (b2 @ [c]) tok @ ulower_from U ((b1 @ [c]) @ tok) post"
    using Cons.IH [of "b1 @ [c]" "b2 @ [c]"] Cons.prems by simp
  ultimately show ?case by simp
qed

lemma ulower_from_prefix:
  "\<exists>front. ulower_from U before (pre @ rest) = front @ ulower_from U (before @ pre) rest"
proof (induction pre arbitrary: before)
  case Nil
  then show ?case by simp
next
  case (Cons c pre)
  from Cons [of "before @ [c]"] obtain front where
    "ulower_from U (before @ [c]) (pre @ rest) = front @ ulower_from U (before @ c # pre) rest"
    by auto
  then have "ulower_from U before ((c # pre) @ rest)
               = (lower_cp U before c (pre @ rest) @ front) @ ulower_from U (before @ c # pre) rest"
    by simp
  then show ?case by blast
qed

lemma ulower_from_has_sigma:
  "931 \<in> set tok \<Longrightarrow> 962 \<in> set (ulower_from U before tok) \<or> 963 \<in> set (ulower_from U before tok)"
  by (induction tok arbitrary: before) (auto simp: lower_cp_def)

lemma of_string_small: "c \<in> set (of_string s) \<Longrightarrow> c < 256"
  by (auto simp: of_string_def)

lemma first_blocked_u_hit:
  "p \<in> set ps \<Longrightarrow> sublist (ulower U (of_string p)) c \<Longrightarrow>
   \<exists>q. q \<in> set ps \<and> sublist (ulower U (of_string q)) c \<and> first_blocked_u U ps c = Some q"
  by (induction ps) auto

text \<open>
  What the pattern test does guarantee, on arbitrary text and for every character
  database: a code that contains a token whose lower-cased form is the lower-cased form
  of a deny-listed pattern is rejected, whatever the parser says.
\<close>

lemma validate_code_u_rejects_lower_equal:
  assumes "p \<in> set BLOCKED_PATTERNS"
    and "ulower U tok = ulower U (of_string p)"
    and "code = pre @ tok @ post"
  shows "\<exists>q. q \<in> set BLOCKED_PATTERNS
           \<and> first_blocked_u U BLOCKED_PATTERNS (ulower U code) = Some q
           \<and> validate_code_u U parse code = (False, Some (''Unsafe pattern detected: '' @ q))"
proof -
  have small: "\<forall>c \<in> set (ulower U tok). c < 256"
    using assms(2) by (auto simp: ulower_latin1 dest: of_string_small)
  have nosigma: "931 \<notin> set tok"
  proof
    assume "931 \<in> set tok"
    then have "962 \<in> set (ulower U tok) \<or> 963 \<in> set (ulower U tok)"
      unfolding ulower_def by (rule ulower_from_has_sigma)
    with small show False by auto
  qed
  obtain front where f: "ulower U code = front @ ulower_from U pre (tok @ post)"
    using ulower_from_prefix [of U "[]" pre "tok @ post"] assms(3) by (auto simp: ulower_def)
  have "ulower_from U pre (tok @ post) = ulower U tok @ ulower_from U (pre @ tok) post"
    unfolding ulower_def using nosigma by (rule ulower_from_no_sigma)
  with f have "ulower U code = front @ ulower U (of_string p) @ ulower_from U (pre @ tok) post"
    using assms(2) by simp
  then have "sublist (ulower U (of_string p)) (ulower U code)"
    unfolding sublist_def by blast
  with assms(1) obtain q where q: "q \<in> set BLOCKED_PATTERNS"
      "first_blocked_u U BLOCKED_PATTERNS (ulower U code) = Some q"
    using first_blocked_u_hit by blast
  then have "validate_code_u U parse code = (False, Some (''Unsafe pattern detected: '' @ q))"
    by (simp add: validate_code_u_def Let_def)
  with q show ?thesis by blast
qed

text \<open>
  C3 fails on the code. The long s (383) is a lower-case letter, so \<^verbatim>\<open>str.lower\<close> leaves it
  as it is, while it equals \<open>s\<close> when case is ignored and the parser reads it as \<open>s\<close> in a
  name. The text \<^verbatim>\<open>().__class__\<close> written with two long s therefore contains the deny-listed
  token \<^verbatim>\<open>__class__\<close> up to case, and the validator (\<open>validate_code_u\<close>) finds no pattern in
  it and accepts it.
\<close>

theorem long_s_passes_validation:
  "first_blocked_u ucd_sample BLOCKED_PATTERNS (ulower ucd_sample long_s_code) = None
   \<and> long_s_parse long_s_code = Inr ''().__class__''
   \<and> validate_code_u ucd_sample long_s_parse long_s_code = (True, None)"
  by code_simp


section \<open>Import normalisation\<close>





section \<open>The executor\<close>

lemma caught_shape: "caught e = (PNone, Some (etype e @ '': '' @ emsg e))"
  by (simp add: caught_def)

lemma execute_code_error_nonempty:
  "execute_code H code dfs = (r, Some msg) \<Longrightarrow> msg \<noteq> []"
  unfolding execute_code_def execute_code_run_def Let_def caught_def
  by (auto split: prod.splits sum.splits stmt_class.splits list.splits target_class.splits if_splits
      dest: validate_code_reason)

text \<open>
  What the assignment branch reads back. When the truth value of the local binding is
  defined, the result is the binding of the variable after the run; when it is not, the
  exception of the conversion is what \<open>execute_code\<close> reports.
\<close>

lemma read_back_defined:
  "truth (dict_get l x) = Inr t \<Longrightarrow>
   py_or (dict_get l x) (dict_get (g ++ l) x) = Inr (dict_get (g ++ l) x)"
  by (cases "l x") (auto simp: py_or_def dict_get_def map_add_def)

lemma read_back_undefined:
  "truth (dict_get l x) = Inl e \<Longrightarrow> py_or (dict_get l x) v = Inl e"
  by (simp add: py_or_def)

lemma assignment_tail_general:
  assumes "validate_code (ast_parse H) (strip_imports code) = (True, None)"
    and "ast_parse H (strip_imports code) = Inr body"
    and "body \<noteq> []"
    and "node_class H (last body) = Assign (Name x # rest)"
    and "exec H (strip_imports code) (initial_globals dfs) Map.empty = Inr (g, l)"
  shows "execute_code H code dfs =
           (case truth (dict_get l x) of
              Inl e \<Rightarrow> caught e
            | Inr t \<Rightarrow> (dict_get (g ++ l) x, None))"
  using assms unfolding execute_code_def execute_code_run_def Let_def
  by (auto split: sum.splits simp: read_back_defined read_back_undefined)

text \<open>
  C1 fails on the code. The text \<^verbatim>\<open>result = clients_df\<close> binds \<^verbatim>\<open>result\<close> to a table; reading
  it back with \<^verbatim>\<open>exec_locals.get(var_name) or exec_globals.get(var_name)\<close> asks for the truth
  value of the table, which raises, so \<open>execute_code\<close> reports a \<^verbatim>\<open>ValueError\<close> and no value.
  The expression \<^verbatim>\<open>clients_df\<close> alone, evaluated against the same scope, yields the table.
\<close>

theorem assignment_tail_table_fails:
  "execute_code mini_host ''result = clients_df'' sample_tables =
     (PNone,
      Some ''ValueError: The truth value of a DataFrame is ambiguous. Use a.empty, a.bool(), a.item(), a.any() or a.all().'')
   \<and> execute_code mini_host ''clients_df'' sample_tables = (PDataFrame clients_table, None)"
  by code_simp

text \<open>
  C2, as stated, fails: the text \<^verbatim>\<open>pass\<close> is run and yields neither a value nor an error.
\<close>

theorem execute_code_both_none:
  "execute_code mini_host ''pass'' sample_tables = (PNone, None)"
  by code_simp

text \<open>
  C2, amended. For every host, code text and tables, the pair returned by \<open>execute_code\<close>
  never holds a value together with an error: the value is none or the error is none.
  (Both can be none.)
\<close>

theorem value_or_error:
  "fst (execute_code H code dfs) = PNone \<or> snd (execute_code H code dfs) = None"
  unfolding execute_code_def execute_code_run_def Let_def caught_def
  by (auto split: prod.splits sum.splits stmt_class.splits list.splits target_class.splits)

theorem value_or_error_witness:
  "fst (execute_code mini_host ''missing_df'' sample_tables) = PNone
   \<or> snd (execute_code mini_host ''missing_df'' sample_tables) = None"
  by (rule value_or_error)

text \<open>
  C6. When the validator rejects the code left by the import normalisation,
  \<open>execute_code\<close> returns no value and the validator's reason, and the run has made no
  call of \<^verbatim>\<open>exec\<close> or \<^verbatim>\<open>eval\<close>. This holds for every host, so the outcome does not depend
  on what running the code would do.
\<close>

theorem rejected_not_run:
  assumes "validate_code (ast_parse H) (strip_imports code) = (False, reason)"
  shows "execute_code H code dfs = (PNone, reason)
         \<and> calls (execute_code_run H code dfs) = []
         \<and> (\<exists>msg. reason = Some msg \<and> msg \<noteq> [])"
  using assms validate_code_reason [OF assms]
  unfolding execute_code_def execute_code_run_def Let_def by simp

theorem rejected_not_run_witness:
  "execute_code mini_host ''x = os.system(cmd)'' sample_tables
     = (PNone, Some ''Unsafe pattern detected: os.'')
   \<and> calls (execute_code_run mini_host ''x = os.system(cmd)'' sample_tables) = []"
proof -
  have v: "validate_code (ast_parse mini_host) (strip_imports ''x = os.system(cmd)'')
             = (False, Some ''Unsafe pattern detected: os.'')"
    by code_simp
  from rejected_not_run [OF v, of sample_tables] show ?thesis by simp
qed

text \<open>
  C10. When the code passes validation and its tail statement is an assignment whose
  first target is not a simple name, \<open>execute_code\<close> makes exactly one call of \<^verbatim>\<open>exec\<close>, on
  the whole text, with the restricted globals and empty locals, and its result is
  decided by that call: when the call raises nothing, it returns neither a value nor an
  error; when the call raises, it returns no value and the error of the exception.
\<close>

theorem non_name_target:
  assumes "validate_code (ast_parse H) (strip_imports code) = (True, None)"
    and "ast_parse H (strip_imports code) = Inr body"
    and "body \<noteq> []"
    and "node_class H (last body) = Assign tgts"
    and "\<forall>x rest. tgts \<noteq> Name x # rest"
  shows "(\<forall>g l. exec H (strip_imports code) (initial_globals dfs) Map.empty = Inr (g, l) \<longrightarrow>
            execute_code H code dfs = (PNone, None))
         \<and> (\<forall>e. exec H (strip_imports code) (initial_globals dfs) Map.empty = Inl e \<longrightarrow>
               execute_code H code dfs = (PNone, Some (etype e @ '': '' @ emsg e)))
         \<and> calls (execute_code_run H code dfs) = [ExecCall (strip_imports code)]"
  using assms unfolding execute_code_def execute_code_run_def Let_def caught_def
  by (auto split: list.splits target_class.splits sum.splits)

theorem non_name_target_witness:
  "execute_code mini_host ''a, b = 1, 2'' sample_tables = (PNone, None)
   \<and> calls (execute_code_run mini_host ''a, b = 1, 2'' sample_tables) = [ExecCall ''a, b = 1, 2'']
   \<and> execute_code mini_host ''a, b = missing_df'' sample_tables
       = (PNone, Some (''NameError: name '' @ [quote] @ ''missing_df'' @ [quote] @ '' is not defined''))
   \<and> calls (execute_code_run mini_host ''a, b = missing_df'' sample_tables)
       = [ExecCall ''a, b = missing_df'']"
proof -
  let ?body = "[MAssign [TTup [''a'', ''b'']] (Tup [Const (PInt 1), Const (PInt 2)])]"
  let ?body' = "[MAssign [TTup [''a'', ''b'']] (Var ''missing_df'')]"
  have s: "strip_imports ''a, b = 1, 2'' = ''a, b = 1, 2''"
    and s': "strip_imports ''a, b = missing_df'' = ''a, b = missing_df''"
    by code_simp+
  have v: "validate_code (ast_parse mini_host) (strip_imports ''a, b = 1, 2'') = (True, None)"
    and v': "validate_code (ast_parse mini_host) (strip_imports ''a, b = missing_df'') = (True, None)"
    by code_simp+
  have p: "ast_parse mini_host (strip_imports ''a, b = 1, 2'') = Inr ?body"
    and p': "ast_parse mini_host (strip_imports ''a, b = missing_df'') = Inr ?body'"
    by code_simp+
  have n: "?body \<noteq> []" and n': "?body' \<noteq> []"
    by simp_all
  have c: "node_class mini_host (last ?body) = Assign [OtherTarget]"
    and c': "node_class mini_host (last ?body') = Assign [OtherTarget]"
    by (simp_all add: mini_host_def)
  have t: "\<forall>x rest. [OtherTarget] \<noteq> Name x # rest"
    by simp
  have e: "exec mini_host (strip_imports ''a, b = 1, 2'') (initial_globals sample_tables) Map.empty
             = Inr (initial_globals sample_tables, [''a'' \<mapsto> PInt 1, ''b'' \<mapsto> PInt 2])"
    unfolding s
    by (simp add: mini_host_def mini_exec_def mini_parse_def mini_programs_def bind_all_def
        newline_def)
  have e': "exec mini_host (strip_imports ''a, b = missing_df'') (initial_globals sample_tables)
              Map.empty
              = Inl (Exn ''NameError''
                      (''name '' @ [quote] @ ''missing_df'' @ [quote] @ '' is not defined''))"
    unfolding s'
    by (simp add: mini_host_def mini_exec_def mini_parse_def mini_programs_def lookup_name_def
        initial_globals_def sample_tables_def SAFE_BUILTINS_def newline_def)
  from non_name_target [OF v p n c t, of sample_tables] e
       non_name_target [OF v' p' n' c' t, of sample_tables] e'
  show ?thesis
    by (simp add: s s')
qed


section \<open>The formatter\<close>

lemma collect_Inl: "collect rs = Inl e \<Longrightarrow> Inl e \<in> set rs"
  by (induction rs rule: collect.induct) (auto split: sum.splits)

lemma int_of_float_raises:
  "int_of_float x = Inl e \<Longrightarrow>
   e = Exn ''ValueError'' ''cannot convert float NaN to integer''
   \<or> e = Exn ''OverflowError'' ''cannot convert float infinity to integer''"
  by (cases x) auto

text \<open>
  The only exceptions that leave \<open>format_result\<close> are those of the conversion of a
  floating-point number that is not finite to an integer; a finite one is always
  rendered.
\<close>

lemma format_result_raises_only:
  "format_result R v max_rows = Inl e \<Longrightarrow>
   e = Exn ''ValueError'' ''cannot convert float NaN to integer''
   \<or> e = Exn ''OverflowError'' ''cannot convert float infinity to integer''"
proof (induction R v max_rows rule: format_result.induct)
  case (5 R r rs max_rows)
  show ?case
  proof (cases "is_frame_or_series r")
    case True
    with "5.prems" have "collect (map (\<lambda>x. format_result R x max_rows) (r # rs)) = Inl e"
      by (simp split: sum.splits)
    then have "Inl e \<in> set (map (\<lambda>x. format_result R x max_rows) (r # rs))"
      by (rule collect_Inl)
    then obtain x where "x \<in> set (r # rs)" "format_result R x max_rows = Inl e"
      unfolding set_map by (metis imageE)
    with "5.IH" [OF True] show ?thesis by blast
  next
    case False
    with "5.prems" show ?thesis by simp
  qed
next
  case (7 R r rs max_rows)
  show ?case
  proof (cases "is_frame_or_series r")
    case True
    with "7.prems" have "collect (map (\<lambda>x. format_result R x max_rows) (r # rs)) = Inl e"
      by (simp split: sum.splits)
    then have "Inl e \<in> set (map (\<lambda>x. format_result R x max_rows) (r # rs))"
      by (rule collect_Inl)
    then obtain x where "x \<in> set (r # rs)" "format_result R x max_rows = Inl e"
      unfolding set_map by (metis imageE)
    with "7.IH" [OF True] show ?thesis by blast
  next
    case False
    with "7.prems" show ?thesis by simp
  qed
next
  case (8 R x max_rows)
  then show ?case
    by (auto split: sum.splits if_splits dest: int_of_float_raises)
qed (auto split: if_splits)

lemma format_result_finite_float:
  "\<exists>text. format_result R (PFloat (Finite q)) max_rows = Inr text"
  by simp

text \<open>
  C4 fails on the code. For a not-a-number, \<^verbatim>\<open>result == int(result)\<close> raises in the
  conversion \<^verbatim>\<open>int(result)\<close>, and so does an infinity: \<open>format_result\<close> returns no text.
\<close>

theorem format_result_nan_raises:
  "format_result plain (PFloat NaN) 20
     = Inl (Exn ''ValueError'' ''cannot convert float NaN to integer'')
   \<and> format_result plain (PFloat PosInf) 20
     = Inl (Exn ''OverflowError'' ''cannot convert float infinity to integer'')"
  by simp

text \<open>
  C5, as stated, fails for a negative \<open>max_rows\<close>: a table of three rows formatted with
  \<open>max_rows = -1\<close> is larger than \<open>max_rows\<close>, and the body holds its first two rows.
\<close>

theorem truncation_negative_max_rows:
  "- 1 < int (length (rows clients_table))
   \<and> format_result plain (PDataFrame clients_table) (- 1)
       = Inr (''DataFrame with 3 rows (showing first -1):'' @ [newline]
              @ ''client_name country'' @ [newline]
              @ ''Acme GmbH Germany'' @ [newline]
              @ ''Bright Legal UK'')
   \<and> length (rows (head (- 1) clients_table)) = 2"
  by code_simp

text \<open>
  C5, amended. Let \<open>max_rows\<close> be non-negative. For a table of \<open>n\<close> rows: if \<open>n > max_rows\<close>,
  the output is a header stating \<open>n\<close> and the truncation to \<open>max_rows\<close>, followed by the
  rendering of the table cut to its first \<open>max_rows\<close> rows, which are exactly \<open>max_rows\<close>
  rows; if \<open>n \<le> max_rows\<close>, the output is a header stating \<open>n\<close>, with no truncation note,
  followed by the rendering of the whole table. The same holds for a labeled sequence
  of \<open>n\<close> items.
\<close>

theorem truncation_law:
  assumes "0 \<le> max_rows"
  shows "(max_rows < int (length (rows df)) \<longrightarrow>
            format_result R (PDataFrame df) max_rows
              = Inr (''DataFrame with '' @ str_int (int (length (rows df)))
                     @ '' rows (showing first '' @ str_int max_rows @ ''):'' @ [newline]
                     @ df_to_string R (head max_rows df))
            \<and> rows (head max_rows df) = take (nat max_rows) (rows df)
            \<and> int (length (rows (head max_rows df))) = max_rows)
       \<and> (int (length (rows df)) \<le> max_rows \<longrightarrow>
            format_result R (PDataFrame df) max_rows
              = Inr (''DataFrame with '' @ str_int (int (length (rows df)))
                     @ '' rows:'' @ [newline] @ df_to_string R df))
       \<and> (max_rows < int (length s) \<longrightarrow>
            format_result R (PSeries s) max_rows
              = Inr (''Series with '' @ str_int (int (length s))
                     @ '' items (showing first '' @ str_int max_rows @ ''):'' @ [newline]
                     @ series_to_string R (series_head max_rows s))
            \<and> series_head max_rows s = take (nat max_rows) s
            \<and> int (length (series_head max_rows s)) = max_rows)
       \<and> (int (length s) \<le> max_rows \<longrightarrow>
            format_result R (PSeries s) max_rows
              = Inr (''Series with '' @ str_int (int (length s))
                     @ '' items:'' @ [newline] @ series_to_string R s))"
  using assms by (auto simp: head_def series_head_def slice_to_def)

theorem truncation_law_witness:
  "format_result plain (PDataFrame clients_table) 2
     = Inr (''DataFrame with 3 rows (showing first 2):'' @ [newline]
            @ ''client_name country'' @ [newline]
            @ ''Acme GmbH Germany'' @ [newline]
            @ ''Bright Legal UK'')
   \<and> length (rows (head 2 clients_table)) = 2
   \<and> format_result plain (PDataFrame clients_table) 20
     = Inr (''DataFrame with 3 rows:'' @ [newline]
            @ ''client_name country'' @ [newline]
            @ ''Acme GmbH Germany'' @ [newline]
            @ ''Bright Legal UK'' @ [newline]
            @ ''Nordic Oil Norway'')
   \<and> format_result plain (PSeries [(CStr ''UK'', CInt 4), (CStr ''Norway'', CInt 1)]) 1
     = Inr (''Series with 2 items (showing first 1):'' @ [newline] @ ''UK 4'')"
proof -
  have n: "int (length (rows clients_table)) = 3"
    by (simp add: clients_table_def)
  have a: "str_int 3 = ''3''" "str_int 2 = ''2''" "str_int 1 = ''1''"
    by code_simp+
  have b: "df_to_string plain (head 2 clients_table)
             = ''client_name country'' @ [newline] @ ''Acme GmbH Germany'' @ [newline]
               @ ''Bright Legal UK''"
    by code_simp
  have c: "df_to_string plain clients_table
             = ''client_name country'' @ [newline] @ ''Acme GmbH Germany'' @ [newline]
               @ ''Bright Legal UK'' @ [newline] @ ''Nordic Oil Norway''"
    by code_simp
  have d: "series_to_string plain
             (series_head 1 [(CStr ''UK'', CInt 4), (CStr ''Norway'', CInt 1)]) = ''UK 4''"
    by code_simp
  have t2: "(0::int) \<le> 2" and t20: "(0::int) \<le> 20" and t1: "(0::int) \<le> 1"
    by simp_all
  have r1: "format_result plain (PDataFrame clients_table) 2
              = Inr (''DataFrame with '' @ str_int 3 @ '' rows (showing first '' @ str_int 2
                     @ ''):'' @ [newline] @ df_to_string plain (head 2 clients_table))
            \<and> int (length (rows (head 2 clients_table))) = 2"
    using truncation_law [OF t2, of clients_table plain "[]"] n
    by (simp del: format_result.simps)
  have r2: "format_result plain (PDataFrame clients_table) 20
              = Inr (''DataFrame with '' @ str_int 3 @ '' rows:'' @ [newline]
                     @ df_to_string plain clients_table)"
    using truncation_law [OF t20, of clients_table plain "[]"] n
    by (simp del: format_result.simps)
  have r3: "format_result plain (PSeries [(CStr ''UK'', CInt 4), (CStr ''Norway'', CInt 1)]) 1
              = Inr (''Series with '' @ str_int 2 @ '' items (showing first '' @ str_int 1
                     @ ''):'' @ [newline]
                     @ series_to_string plain
                         (series_head 1 [(CStr ''UK'', CInt 4), (CStr ''Norway'', CInt 1)]))"
    using truncation_law [OF t1, of clients_table plain
        "[(CStr ''UK'', CInt 4), (CStr ''Norway'', CInt 1)]"]
    by (simp del: format_result.simps)
  from r1 r2 r3 show ?thesis
    by (simp add: a b c d del: format_result.simps)
qed


section \<open>The retry loop and the pipeline\<close>

lemma retry_loop_done:
  "\<not> attempt < retries + 1 \<Longrightarrow> retry_loop H S retries q dfs attempt st = st"
  by (subst retry_loop.simps) simp

lemma retry_loop_success:
  assumes "attempt < retries + 1"
    and "execute_code H (ls_code st) dfs = (r, None)"
  shows "retry_loop H S retries q dfs attempt st
           = st\<lparr>ls_result := r, ls_error := None,
                 ls_executed := ls_executed st @ [ls_code st]\<rparr>"
  using assms by (subst retry_loop.simps) (simp add: Let_def)

lemma retry_loop_retry:
  assumes "attempt < retries"
    and "execute_code H (ls_code st) dfs = (r, Some msg)"
    and "generate_code_with_error_feedback S attempt q dfs (ls_code st) msg = Inr code'"
  shows "retry_loop H S retries q dfs attempt st
           = retry_loop H S retries q dfs (attempt + 1)
               (st\<lparr>ls_result := r, ls_error := Some msg,
                    ls_executed := ls_executed st @ [ls_code st], ls_code := code'\<rparr>)"
  using assms by (subst retry_loop.simps) (simp add: Let_def)

lemma retry_loop_fix_failed:
  assumes "attempt < retries"
    and "execute_code H (ls_code st) dfs = (r, Some msg)"
    and "generate_code_with_error_feedback S attempt q dfs (ls_code st) msg = Inl e"
  shows "retry_loop H S retries q dfs attempt st
           = st\<lparr>ls_result := r, ls_error := Some (''Code fix failed: '' @ emsg e),
                 ls_executed := ls_executed st @ [ls_code st]\<rparr>"
  using assms by (subst retry_loop.simps) (simp add: Let_def)

lemma retry_loop_last:
  assumes "attempt = retries"
    and "execute_code H (ls_code st) dfs = (r, Some msg)"
  shows "retry_loop H S retries q dfs attempt st
           = st\<lparr>ls_result := r, ls_error := Some msg,
                 ls_executed := ls_executed st @ [ls_code st]\<rparr>"
  using assms by (subst retry_loop.simps) (simp add: Let_def retry_loop_done)

text \<open>
  C8. With the retry budget at its default of 2, when the generated code and the two
  regenerated codes all fail to execute, \<open>ask\<close> returns a result whose success flag is
  false, whose error is the non-empty error of the third attempt and whose code is the
  third code; \<open>execute_code\<close> has been given exactly these three codes, in order.
\<close>

theorem retries_exhausted:
  assumes "max_retries P = 2"
    and "dataframes P \<noteq> []"
    and "generate_pandas_code S q (dataframes P) = Inr c0"
    and "execute_code H c0 (dataframes P) = (r0, Some e0)"
    and "generate_code_with_error_feedback S 0 q (dataframes P) c0 e0 = Inr c1"
    and "execute_code H c1 (dataframes P) = (r1, Some e1)"
    and "generate_code_with_error_feedback S 1 q (dataframes P) c1 e1 = Inr c2"
    and "execute_code H c2 (dataframes P) = (r2, Some e2)"
  shows "\<exists>res. ask H R S P q = Inr res
           \<and> success res = False
           \<and> error res = Some e2 \<and> e2 \<noteq> []
           \<and> generated_code res = Some c2
           \<and> ls_executed
                (retry_loop H S (max_retries P) q (dataframes P) 0
                   \<lparr>ls_code = c0, ls_result = PNone, ls_error = None, ls_executed = []\<rparr>)
              = [c0, c1, c2]"
proof -
  let ?dfs = "dataframes P"
  let ?st0 = "\<lparr>ls_code = c0, ls_result = PNone, ls_error = None, ls_executed = []\<rparr>"
  let ?st1 = "\<lparr>ls_code = c1, ls_result = r0, ls_error = Some e0, ls_executed = [c0]\<rparr>"
  let ?st2 = "\<lparr>ls_code = c2, ls_result = r1, ls_error = Some e1, ls_executed = [c0, c1]\<rparr>"
  let ?st3 = "\<lparr>ls_code = c2, ls_result = r2, ls_error = Some e2, ls_executed = [c0, c1, c2]\<rparr>"
  have s1: "retry_loop H S 2 q ?dfs 0 ?st0 = retry_loop H S 2 q ?dfs 1 ?st1"
    using retry_loop_retry [of 0 2 H ?st0 ?dfs r0 e0 S q c1] assms(4,5) by simp
  have s2: "retry_loop H S 2 q ?dfs 1 ?st1 = retry_loop H S 2 q ?dfs 2 ?st2"
    using retry_loop_retry [of 1 2 H ?st1 ?dfs r1 e1 S q c2] assms(6,7) by simp
  have s3: "retry_loop H S 2 q ?dfs 2 ?st2 = ?st3"
    using retry_loop_last [of 2 2 H ?st2 ?dfs r2 e2 S q] assms(8) by simp
  have loop: "retry_loop H S (max_retries P) q ?dfs 0 ?st0 = ?st3"
    using s1 s2 s3 assms(1) by simp
  have ne: "e2 \<noteq> []"
    using execute_code_error_nonempty [OF assms(8)] .
  show ?thesis
    using assms(2,3) loop ne
    by (simp add: ask_def ask_loaded_def Let_def split: sum.splits)
qed

theorem retries_exhausted_witness:
  "\<exists>res. ask mini_host plain (scripted ''missing_df'' True) loaded_pipeline ''How many clients?''
            = Inr res
     \<and> success res = False
     \<and> error res
         = Some (''NameError: name '' @ [quote] @ ''missing_df'' @ [quote] @ '' is not defined'')
     \<and> generated_code res = Some ''missing_df''
     \<and> ls_executed
          (retry_loop mini_host (scripted ''missing_df'' True) (max_retries loaded_pipeline)
             ''How many clients?'' (dataframes loaded_pipeline) 0
             \<lparr>ls_code = ''missing_df'', ls_result = PNone, ls_error = None, ls_executed = []\<rparr>)
        = [''missing_df'', ''missing_df'', ''missing_df'']"
proof -
  let ?S = "scripted ''missing_df'' True"
  let ?msg = "''NameError: name '' @ [quote] @ ''missing_df'' @ [quote] @ '' is not defined''"
  have m: "max_retries loaded_pipeline = 2"
    by (simp add: loaded_pipeline_def new_pipeline_def)
  have d: "dataframes loaded_pipeline \<noteq> []"
    by (simp add: loaded_pipeline_def sample_tables_def)
  have g: "generate_pandas_code ?S ''How many clients?'' (dataframes loaded_pipeline)
             = Inr ''missing_df''"
    by (simp add: scripted_def)
  have x: "execute_code mini_host ''missing_df'' (dataframes loaded_pipeline) = (PNone, Some ?msg)"
    by code_simp
  have f0: "generate_code_with_error_feedback ?S 0 ''How many clients?''
              (dataframes loaded_pipeline) ''missing_df'' ?msg = Inr ''missing_df''"
    by (simp add: scripted_def)
  have f1: "generate_code_with_error_feedback ?S 1 ''How many clients?''
              (dataframes loaded_pipeline) ''missing_df'' ?msg = Inr ''missing_df''"
    by (simp add: scripted_def)
  from retries_exhausted [OF m d g x f0 x f1 x, of plain] show ?thesis
    by blast
qed

text \<open>
  C9. When the retry loop ends without an error, the result is formatted and the call
  that synthesises the answer raises, \<open>ask\<close> still returns a successful result: its
  answer is the fixed lead-in \<^verbatim>\<open>Here are the results:\<close>, a blank line, and the formatted
  result text unchanged.
\<close>

theorem synthesis_fallback:
  assumes "dataframes P \<noteq> []"
    and "generate_pandas_code S q (dataframes P) = Inr c0"
    and "retry_loop H S (max_retries P) q (dataframes P) 0
           \<lparr>ls_code = c0, ls_result = PNone, ls_error = None, ls_executed = []\<rparr> = st"
    and "ls_error st = None"
    and "format_result R (ls_result st) 20 = Inr formatted"
    and "generate_answer S q formatted (ls_code st) = Inl e"
  shows "\<exists>res. ask H R S P q = Inr res
           \<and> answer res = ''Here are the results:'' @ [newline, newline] @ formatted
           \<and> success res = True
           \<and> error res = None
           \<and> formatted_result res = Some formatted
           \<and> raw_result res = ls_result st"
  using assms by (simp add: ask_def ask_loaded_def Let_def)

theorem synthesis_fallback_witness:
  "\<exists>res. ask mini_host plain (scripted ''clients_df'' False) loaded_pipeline ''Who are the clients?''
            = Inr res
     \<and> answer res
         = ''Here are the results:'' @ [newline, newline]
           @ ''DataFrame with 3 rows:'' @ [newline]
           @ ''client_name country'' @ [newline]
           @ ''Acme GmbH Germany'' @ [newline]
           @ ''Bright Legal UK'' @ [newline]
           @ ''Nordic Oil Norway''
     \<and> success res = True"
proof -
  let ?S = "scripted ''clients_df'' False"
  let ?st = "\<lparr>ls_code = ''clients_df'', ls_result = PDataFrame clients_table, ls_error = None,
              ls_executed = [''clients_df'']\<rparr>"
  let ?text = "''DataFrame with 3 rows:'' @ [newline] @ ''client_name country'' @ [newline]
               @ ''Acme GmbH Germany'' @ [newline] @ ''Bright Legal UK'' @ [newline]
               @ ''Nordic Oil Norway''"
  have d: "dataframes loaded_pipeline \<noteq> []"
    by (simp add: loaded_pipeline_def sample_tables_def)
  have g: "generate_pandas_code ?S ''Who are the clients?'' (dataframes loaded_pipeline)
             = Inr ''clients_df''"
    by (simp add: scripted_def)
  have l: "retry_loop mini_host ?S (max_retries loaded_pipeline) ''Who are the clients?''
             (dataframes loaded_pipeline) 0
             \<lparr>ls_code = ''clients_df'', ls_result = PNone, ls_error = None, ls_executed = []\<rparr>
           = ?st"
    by code_simp
  have n: "ls_error ?st = None"
    by simp
  have f: "format_result plain (ls_result ?st) 20 = Inr ?text"
    by code_simp
  have a: "generate_answer ?S ''Who are the clients?'' ?text (ls_code ?st)
             = Inl (Exn ''APIConnectionError'' ''Connection error.'')"
    by (simp add: scripted_def)
  from synthesis_fallback [OF d g l n f a] show ?thesis
    by blast
qed

end
